theory Spec2Isabelle
  imports Complex_Main
begin

section \<open>JavaScript values, as this program meets them\<close>

text \<open>
  Strings: a \<^typ>\<open>string\<close> is a JavaScript string whose UTF-16 code units all lie in
  \<open>0..255\<close> (one \<^typ>\<open>char\<close> per code unit), so \<^const>\<open>length\<close> is
  \<open>String.prototype.length\<close>.  The numbers of a record are kept exact (\<^typ>\<open>rat\<close>): the
  program never computes with them, it only tests them for truthiness and prints them.
\<close>

datatype jsval =
    JUndefined
  | JNull
  | JBool bool
  | JNum rat
  | JStr string
  | JArr "jsval list"
  | JObj "(string \<times> jsval) list"

text \<open>\<open>JObj\<close> lists the own properties in insertion order; \<open>JSON.parse\<close> yields distinct keys.\<close>

datatype error =
    SyntaxError string
  | TypeError string
  | Error string

fun message :: "error \<Rightarrow> string" where
  "message (SyntaxError m) = m"
| "message (TypeError m) = m"
| "message (Error m) = m"

text \<open>
  The parts of the JavaScript runtime the program calls and this development does not
  define: \<open>JSON.parse\<close> (\<open>None\<close> when it throws its \<open>SyntaxError\<close>), \<open>JSON.stringify\<close>
  and the printing of a number inside a template literal.
\<close>

record runtime =
  JSON_parse :: "string \<Rightarrow> jsval option"
  JSON_stringify :: "jsval \<Rightarrow> string"
  Number_toString :: "rat \<Rightarrow> string"

text \<open>Truthiness (\<open>ToBoolean\<close>): what \<open>if (v)\<close>, \<open>v && w\<close>, \<open>v || w\<close> and \<open>!v\<close> test.\<close>

fun truthy :: "jsval \<Rightarrow> bool" where
  "truthy JUndefined = False"
| "truthy JNull = False"
| "truthy (JBool b) = b"
| "truthy (JNum n) = (n \<noteq> 0)"
| "truthy (JStr s) = (s \<noteq> [])"
| "truthy (JArr xs) = True"
| "truthy (JObj fs) = True"

text \<open>
  Reading a property \<open>v.k\<close>, for the names this program reads (\<open>dense_context\<close>,
  \<open>question\<close>, \<open>answer\<close>, \<open>text\<close>, \<open>embedding\<close>, \<open>data\<close>), none of which a prototype
  defines: \<open>null\<close> and \<open>undefined\<close> throw, an object yields its own property or
  \<open>undefined\<close>, every other value yields \<open>undefined\<close>.
\<close>

fun getProp :: "jsval \<Rightarrow> string \<Rightarrow> error + jsval" where
  "getProp JUndefined k = Inl (TypeError (''Cannot read properties of undefined (reading '' @ k @ '')''))"
| "getProp JNull k = Inl (TypeError (''Cannot read properties of null (reading '' @ k @ '')''))"
| "getProp (JObj fs) k = Inr (case map_of fs k of None \<Rightarrow> JUndefined | Some v \<Rightarrow> v)"
| "getProp v k = Inr JUndefined"

text \<open>\<open>v[0]\<close>: the first element of an array, the first character of a string, the property \<open>"0"\<close> of an object.\<close>

fun index0 :: "jsval \<Rightarrow> error + jsval" where
  "index0 JUndefined = Inl (TypeError ''Cannot read properties of undefined (reading 0)'')"
| "index0 JNull = Inl (TypeError ''Cannot read properties of null (reading 0)'')"
| "index0 (JArr xs) = Inr (case xs of [] \<Rightarrow> JUndefined | x # _ \<Rightarrow> x)"
| "index0 (JStr s) = Inr (case s of [] \<Rightarrow> JUndefined | c # _ \<Rightarrow> JStr [c])"
| "index0 (JObj fs) = Inr (case map_of fs ''0'' of None \<Rightarrow> JUndefined | Some v \<Rightarrow> v)"
| "index0 v = Inr JUndefined"

fun setField :: "string \<Rightarrow> jsval \<Rightarrow> (string \<times> jsval) list \<Rightarrow> (string \<times> jsval) list" where
  "setField k v [] = [(k, v)]"
| "setField k v (p # ps) = (if fst p = k then (k, v) # ps else p # setField k v ps)"

text \<open>
  Writing \<open>v.k = w\<close>: an object keeps the position of an existing key and appends a new
  one; an array takes a named property that \<open>JSON.stringify\<close> does not print; on a
  primitive the write throws in strict code (the ES module \<open>App.jsx\<close>) and is ignored in
  sloppy code (the CommonJS script).
\<close>

fun setProp :: "bool \<Rightarrow> jsval \<Rightarrow> string \<Rightarrow> jsval \<Rightarrow> error + jsval" where
  "setProp strict JUndefined k w = Inl (TypeError (''Cannot set properties of undefined (setting '' @ k @ '')''))"
| "setProp strict JNull k w = Inl (TypeError (''Cannot set properties of null (setting '' @ k @ '')''))"
| "setProp strict (JObj fs) k w = Inr (JObj (setField k w fs))"
| "setProp strict (JArr xs) k w = Inr (JArr xs)"
| "setProp strict v k w =
     (if strict then Inl (TypeError (''Cannot create property '' @ k)) else Inr v)"

fun isArray :: "jsval \<Rightarrow> bool" where
  "isArray (JArr xs) = True"
| "isArray v = False"

text \<open>\<open>Array.prototype.join\<close>.\<close>

fun join :: "string \<Rightarrow> string list \<Rightarrow> string" where
  "join sep [] = []"
| "join sep [x] = x"
| "join sep (x # y # ys) = x @ sep @ join sep (y # ys)"

text \<open>
  \<open>ToString\<close>, as a template literal applies it to a value read from JSON.  An array is
  printed by \<open>Array.prototype.join\<close>, which prints \<open>null\<close> and \<open>undefined\<close> elements as
  nothing and applies \<open>ToString\<close> to the others, from left to right.  An object is
  printed through its property \<open>toString\<close>: that is \<open>Object.prototype.toString\<close>,
  giving \<open>[object Object]\<close>, unless the object has an own property of that name; what
  \<open>JSON.parse\<close> stored there is never a function, \<open>valueOf\<close> yields no primitive
  either, and the conversion throws a \<open>TypeError\<close>.
\<close>

fun toString :: "runtime \<Rightarrow> jsval \<Rightarrow> error + string"
  and toStringElements :: "runtime \<Rightarrow> jsval list \<Rightarrow> error + string list" where
  "toString rt JUndefined = Inr ''undefined''"
| "toString rt JNull = Inr ''null''"
| "toString rt (JBool b) = Inr (if b then ''true'' else ''false'')"
| "toString rt (JNum n) = Inr (Number_toString rt n)"
| "toString rt (JStr s) = Inr s"
| "toString rt (JArr xs) =
     (case toStringElements rt xs of Inl e \<Rightarrow> Inl e | Inr ss \<Rightarrow> Inr (join '','' ss))"
| "toString rt (JObj fs) =
     (if map_of fs ''toString'' = None then Inr ''[object Object]''
      else Inl (TypeError ''Cannot convert object to primitive value''))"
| "toStringElements rt [] = Inr []"
| "toStringElements rt (x # xs) =
     (case (if x = JNull \<or> x = JUndefined then Inr [] else toString rt x) of
        Inl e \<Rightarrow> Inl e
      | Inr s \<Rightarrow> (case toStringElements rt xs of Inl e \<Rightarrow> Inl e | Inr ss \<Rightarrow> Inr (s # ss)))"

section \<open>Text extraction: \<open>getEmbeddingText\<close>\<close>

text \<open>
  \<open>App.jsx\<close>:
  \<^verbatim>\<open>if (record.dense_context) return record.dense_context;
  if (record.question && record.answer) return `Q: ${record.question}\nA: ${record.answer}`;
  return record.text || "";\<close>
  The function returns the field itself, which need not be a string.  The template
  literal converts the question, then the answer, and throws when a conversion does.
\<close>

fun andThen :: "error + 'a \<Rightarrow> ('a \<Rightarrow> error + 'b) \<Rightarrow> error + 'b" where
  "andThen (Inl e) f = Inl e"
| "andThen (Inr x) f = f x"

definition getEmbeddingText :: "runtime \<Rightarrow> jsval \<Rightarrow> error + jsval" where
  "getEmbeddingText rt record =
     andThen (getProp record ''dense_context'') (\<lambda>d.
       if truthy d then Inr d
       else andThen (getProp record ''question'') (\<lambda>q.
         if truthy q
         then andThen (getProp record ''answer'') (\<lambda>a.
           if truthy a
           then andThen (toString rt q) (\<lambda>qs.
                  andThen (toString rt a) (\<lambda>as.
                    Inr (JStr (''Q: '' @ qs @ [CHR 0x0A] @ ''A: '' @ as))))
           else andThen (getProp record ''text'') (\<lambda>t. if truthy t then Inr t else Inr (JStr [])))
         else andThen (getProp record ''text'') (\<lambda>t. if truthy t then Inr t else Inr (JStr []))))"

text \<open>\<open>typeof v === 'object'\<close>: objects, arrays and \<open>null\<close>.\<close>

fun typeofObject :: "jsval \<Rightarrow> bool" where
  "typeofObject JNull = True"
| "typeofObject (JArr xs) = True"
| "typeofObject (JObj fs) = True"
| "typeofObject v = False"

text \<open>
  The script \<open>embed_jsonl.js\<close> guards first:
  \<^verbatim>\<open>if (!record || typeof record !== 'object') return '';\<close>
\<close>

definition getEmbeddingText_script :: "runtime \<Rightarrow> jsval \<Rightarrow> error + jsval" where
  "getEmbeddingText_script rt record =
     (if \<not> truthy record \<or> \<not> typeofObject record then Inr (JStr [])
      else getEmbeddingText rt record)"

text \<open>The value of a field of a record, \<open>undefined\<close> when the record has no such key.\<close>

definition field :: "(string \<times> jsval) list \<Rightarrow> string \<Rightarrow> jsval" where
  "field fs k = (case map_of fs k of None \<Rightarrow> JUndefined | Some v \<Rightarrow> v)"

section \<open>Text handed to a provider\<close>

text \<open>\<open>t.replace(/\n/g, ' ')\<close>, the remote path (\<open>fetchBatchEmbeddings\<close>, \<open>fetchEmbeddingViaApi\<close>).\<close>

fun replaceNewlines :: "string \<Rightarrow> string" where
  "replaceNewlines [] = []"
| "replaceNewlines (c # cs) = (if c = CHR 0x0A then CHR 0x20 # replaceNewlines cs else c # replaceNewlines cs)"

text \<open>
  The class \<open>\s\<close> of a regular expression, which is also what \<open>trim\<close> removes: within
  code units \<open>0..255\<close> these are tab, line feed, vertical tab, form feed, carriage return,
  space and no-break space.
\<close>

definition isSpace :: "char \<Rightarrow> bool" where
  "isSpace c = (c \<in> set [CHR 0x09, CHR 0x0A, CHR 0x0B, CHR 0x0C, CHR 0x0D, CHR 0x20, CHR 0xA0])"

text \<open>\<open>t.replace(/\s+/g, ' ')\<close>: every maximal run of white space becomes one space.\<close>

function collapseWhitespace :: "string \<Rightarrow> string" where
  "collapseWhitespace [] = []"
| "collapseWhitespace (c # cs) =
     (if isSpace c then CHR 0x20 # collapseWhitespace (dropWhile isSpace cs)
      else c # collapseWhitespace cs)"
  by pat_completeness auto
termination
  by (relation "measure length") (auto simp: less_Suc_eq_le length_dropWhile_le)

definition trim :: "string \<Rightarrow> string" where
  "trim s = rev (dropWhile isSpace (rev (dropWhile isSpace s)))"

text \<open>The local path (\<open>embedTextsLocally\<close>, \<open>fetchEmbeddingWithTransformers\<close>): \<open>text.replace(/\s+/g, ' ').trim()\<close>.\<close>

definition cleanTextLocal :: "string \<Rightarrow> string" where
  "cleanTextLocal t = trim (collapseWhitespace t)"

text \<open>
  Calling \<open>t.replace(...)\<close> on a value: only a string has the method.  (An object whose
  own property \<open>replace\<close> came from JSON holds no function there either.)
\<close>

fun callReplace :: "(string \<Rightarrow> string) \<Rightarrow> jsval \<Rightarrow> error + string" where
  "callReplace f (JStr s) = Inr (f s)"
| "callReplace f JUndefined = Inl (TypeError ''Cannot read properties of undefined (reading replace)'')"
| "callReplace f JNull = Inl (TypeError ''Cannot read properties of null (reading replace)'')"
| "callReplace f v = Inl (TypeError ''replace is not a function'')"

text \<open>\<open>xs.map(f)\<close> where \<open>f\<close> may throw: the first exception ends the map.\<close>

fun mapE :: "('a \<Rightarrow> error + 'b) \<Rightarrow> 'a list \<Rightarrow> error + 'b list" where
  "mapE f [] = Inr []"
| "mapE f (x # xs) =
     (case f x of Inl e \<Rightarrow> Inl e
      | Inr y \<Rightarrow> (case mapE f xs of Inl e \<Rightarrow> Inl e | Inr ys \<Rightarrow> Inr (y # ys)))"

section \<open>The remote provider, as \<open>App.jsx\<close> calls it\<close>

text \<open>
  A response: its status, what \<open>response.text()\<close> yields and what \<open>response.json()\<close>
  yields (\<open>None\<close> when the body is not JSON).  A provider answers a request from the
  number of requests made before it in this run and the \<open>input\<close> array; \<open>Inl\<close> is a
  rejected \<open>fetch\<close> (a network error).
\<close>

datatype response = Response nat string "jsval option"

type_synonym provider = "nat \<Rightarrow> string list \<Rightarrow> error + response"

definition ok :: "nat \<Rightarrow> bool" where
  "ok st = (200 \<le> st \<and> st \<le> 299)"

text \<open>The decimal digit for a number below ten, and \<open>String(n)\<close> for a natural number.\<close>

definition digit :: "nat \<Rightarrow> char" where
  "digit n = ''0123456789'' ! n"

function decimal :: "nat \<Rightarrow> string" where
  "decimal n = (if n < 10 then [digit n] else decimal (n div 10) @ [digit (n mod 10)])"
  by pat_completeness auto
termination
  by (relation "measure id") auto

text \<open>\<^verbatim>\<open>`API Error ${response.status}${errorText ? `: ${errorText}` : ''}`\<close>\<close>

definition apiErrorMessage :: "nat \<Rightarrow> string \<Rightarrow> string" where
  "apiErrorMessage st errorText =
     ''API Error '' @ decimal st @ (if errorText \<noteq> [] then '': '' @ errorText else [])"

fun elems :: "jsval \<Rightarrow> jsval list" where
  "elems (JArr xs) = xs"
| "elems v = []"

text \<open>
  \<open>fetchBatchEmbeddings\<close>, in two parts.  First what it makes of the outcome of
  \<open>fetch\<close>: a rejection is thrown on, a status outside \<open>200..299\<close> throws
  \<open>API Error\<close>, a body that is not JSON throws, and a body whose \<open>data\<close> is a truthy
  array yields \<open>data.data.map(item => item.embedding)\<close>; anything else throws
  \<open>Unexpected response format\<close>.
\<close>

definition readEmbeddings :: "error + response \<Rightarrow> error + jsval list" where
  "readEmbeddings outcome =
     (case outcome of
        Inl e \<Rightarrow> Inl e
      | Inr (Response st errorText body) \<Rightarrow>
          if \<not> ok st then Inl (Error (apiErrorMessage st errorText))
          else (case body of
                  None \<Rightarrow> Inl (SyntaxError ''Unexpected token'')
                | Some data \<Rightarrow>
                    andThen (getProp data ''data'') (\<lambda>d.
                      if truthy d \<and> isArray d
                      then mapE (\<lambda>item. getProp item ''embedding'') (elems d)
                      else Inl (Error ''Unexpected response format''))))"

text \<open>
  Then the whole function.  The result comes with the log of requests (the \<open>input\<close>
  array of each, oldest first): a request that was sent stays sent when the call then
  throws.  The \<open>catch\<close> of the source logs and rethrows.
\<close>

definition fetchBatchEmbeddings ::
  "provider \<Rightarrow> string list list \<Rightarrow> jsval list \<Rightarrow> string list list \<times> (error + jsval list)" where
  "fetchBatchEmbeddings prov calls texts =
     (case mapE (callReplace replaceNewlines) texts of
        Inl e \<Rightarrow> (calls, Inl e)
      | Inr cleanTexts \<Rightarrow>
          (calls @ [cleanTexts], readEmbeddings (prov (length calls) cleanTexts)))"

text \<open>
  The \<open>forEach\<close> of \<open>processBatch\<close>:
  \<^verbatim>\<open>records.forEach((record, index) => {
    record.embedding = embeddings[index];
    outputBuffer.push(JSON.stringify(record));
  });\<close>
  The second list is \<open>embeddings\<close> from \<open>index\<close> on (\<open>undefined\<close> past its end).  The
  records are objects shared with \<open>batchRecords\<close>, so the result carries them as they
  are after the writes, next to the buffer and the exception, if one stopped the loop.
\<close>

fun forEachRecord ::
  "runtime \<Rightarrow> jsval list \<Rightarrow> jsval list \<Rightarrow> string list \<Rightarrow> jsval list \<times> string list \<times> error option" where
  "forEachRecord rt [] es out = ([], out, None)"
| "forEachRecord rt (r # rs) es out =
     (case setProp True r ''embedding'' (case es of [] \<Rightarrow> JUndefined | e # _ \<Rightarrow> e) of
        Inl err \<Rightarrow> (r # rs, out, Some err)
      | Inr r' \<Rightarrow>
          (case forEachRecord rt rs (tl es) (out @ [JSON_stringify rt r']) of
             (rs', out', res) \<Rightarrow> (r' # rs', out', res)))"

text \<open>
  \<open>processBatch(texts, records, outputBuffer, config)\<close>; an array is truthy, so
  \<open>!embeddings\<close> is false whenever \<open>fetchBatchEmbeddings\<close> returns.
\<close>

definition processBatch ::
  "runtime \<Rightarrow> provider \<Rightarrow> string list list \<Rightarrow> jsval list \<Rightarrow> jsval list \<Rightarrow> string list \<Rightarrow>
   string list list \<times> jsval list \<times> string list \<times> error option" where
  "processBatch rt prov calls texts records outputBuffer =
     (case fetchBatchEmbeddings prov calls texts of
        (calls', Inl e) \<Rightarrow> (calls', records, outputBuffer, Some e)
      | (calls', Inr embeddings) \<Rightarrow>
          if length embeddings \<noteq> length records
          then (calls', records, outputBuffer,
                Some (Error ''Embedding service returned an unexpected payload''))
          else (case forEachRecord rt records embeddings outputBuffer of
                  (records', out', res) \<Rightarrow> (calls', records', out', res)))"

section \<open>The browser pipeline: \<open>processFile\<close> of \<open>App.jsx\<close>\<close>

text \<open>\<open>buffer.split('\n')\<close>: the pieces between the newlines, at least one; \<open>cur\<close> is the piece being read.\<close>

fun splitAcc :: "string \<Rightarrow> string \<Rightarrow> string list" where
  "splitAcc cur [] = [cur]"
| "splitAcc cur (c # cs) = (if c = CHR 0x0A then cur # splitAcc [] cs else splitAcc (cur @ [c]) cs)"

definition splitNewline :: "string \<Rightarrow> string list" where
  "splitNewline s = splitAcc [] s"

text \<open>
  \<open>lineIterator(file)\<close>, on the pieces of text that the reads of the stream decode to.
  While pieces arrive, the buffer is split, its last piece is kept for the next turn and
  the others are yielded unless blank; when the stream is done, what is left in the
  buffer is split and yielded the same way.
\<close>

fun lineLoop :: "string \<Rightarrow> string list \<Rightarrow> string list" where
  "lineLoop buffer [] =
     (if buffer = [] then [] else filter (\<lambda>line. trim line \<noteq> []) (splitNewline buffer))"
| "lineLoop buffer (chunk # chunks) =
     filter (\<lambda>line. trim line \<noteq> []) (butlast (splitNewline (buffer @ chunk))) @
     lineLoop (last (splitNewline (buffer @ chunk))) chunks"

definition lineIterator :: "string list \<Rightarrow> string list" where
  "lineIterator chunks = lineLoop [] chunks"

datatype fileStatus = Pending | Processing | Done | Failed

text \<open>
  The entry of the file list that \<open>updateFileStatus\<close> rewrites (\<open>status\<close> is one of
  \<open>'pending'\<close>, \<open>'processing'\<close>, \<open>'done'\<close>, \<open>'error'\<close>; \<open>Failed\<close> stands for \<open>'error'\<close>).
  \<open>resultUrl\<close> holds the text of the blob the URL names.
\<close>

record fileItem =
  status :: fileStatus
  progress :: nat
  totalRecords :: nat
  processed :: nat
  resultUrl :: "string option"
  error :: "string option"

text \<open>
  The local variables of \<open>processFile\<close>, and what it does to the outside: the requests
  sent so far, the file's entry, and every state the entry went through.
\<close>

record pstate =
  processedBytes :: nat
  processedLines :: "string list"
  batch :: "jsval list"
  batchRecords :: "jsval list"
  processedCount :: nat
  calls :: "string list list"
  fileEntry :: fileItem
  history :: "fileItem list"

definition BATCH_SIZE :: nat where
  "BATCH_SIZE = 8"

text \<open>\<open>new TextEncoder().encode(s).length\<close>: a code unit below 128 is one byte of UTF-8, one from 128 to 255 is two.\<close>

fun utf8Length :: "string \<Rightarrow> nat" where
  "utf8Length [] = 0"
| "utf8Length (c # cs) = (if (of_char c :: nat) < 128 then 1 else 2) + utf8Length cs"

text \<open>
  The arithmetic of \<open>(processedBytes / totalSize) * 100\<close> is that of IEEE 754 doubles:
  the quotient is rounded to the nearest double (53 significant bits, a tie to the even
  one), and so is the product.  A positive double is written \<open>(m, e)\<close> for \<open>m * 2 ^ e\<close>.
  Both counts are integers below \<open>2 ^ 53\<close>, which doubles hold exactly; quotient and
  product then stay far from overflow and from the subnormal range.
\<close>

function bitLength :: "int \<Rightarrow> int" where
  "bitLength n = (if n \<le> 0 then 0 else 1 + bitLength (n div 2))"
  by pat_completeness auto
termination
  by (relation "measure nat") auto

declare bitLength.simps [simp del]

text \<open>The fraction \<open>p / q\<close> times \<open>2 ^ s\<close>, as a fraction of integers.\<close>

definition scaled :: "int \<Rightarrow> int \<Rightarrow> int \<Rightarrow> int \<times> int" where
  "scaled p q s = (if 0 \<le> s then (p * 2 ^ nat s, q) else (p, q * 2 ^ nat (- s)))"

text \<open>The integer nearest to \<open>n / d\<close>, the even one of two that are equally near.\<close>

definition roundHalfEven :: "int \<Rightarrow> int \<Rightarrow> int" where
  "roundHalfEven n d =
     (if 2 * (n mod d) < d then n div d
      else if d < 2 * (n mod d) then n div d + 1
      else if even (n div d) then n div d
      else n div d + 1)"

text \<open>
  The double nearest to \<open>p / q\<close>, for positive \<open>p\<close> and \<open>q\<close>: the fraction is scaled by the
  power of two that brings it into \<open>2 ^ 52 ..< 2 ^ 53\<close> and rounded to an integer there.
\<close>

definition toDouble :: "int \<Rightarrow> int \<Rightarrow> int \<times> int" where
  "toDouble p q =
     (let s0 = 53 + bitLength q - bitLength p;
          s = (if 2 ^ 53 * snd (scaled p q s0) \<le> fst (scaled p q s0) then s0 - 1 else s0)
      in (roundHalfEven (fst (scaled p q s)) (snd (scaled p q s)), - s))"

text \<open>\<open>x * 100\<close> on a double, and \<open>Math.round(x)\<close>, which is \<open>floor(x + 0.5)\<close> taken exactly.\<close>

definition times100 :: "int \<times> int \<Rightarrow> int \<times> int" where
  "times100 x = toDouble (fst (scaled (fst x * 100) 1 (snd x))) (snd (scaled (fst x * 100) 1 (snd x)))"

definition mathRound :: "int \<times> int \<Rightarrow> int" where
  "mathRound x =
     (2 * fst (scaled (fst x) 1 (snd x)) + snd (scaled (fst x) 1 (snd x))) div
     (2 * snd (scaled (fst x) 1 (snd x)))"

text \<open>
  \<open>Math.min(99, Math.round((processedBytes / totalSize) * 100))\<close>.  A \<open>totalSize\<close> of
  zero gives \<open>Infinity\<close> and the minimum is 99.  With \<open>processedBytes\<close> zero as well the
  quotient would be \<open>NaN\<close>; the loop never asks for that, since every line counts at
  least the byte of its newline before anything is dispatched.
\<close>

definition progressOf :: "nat \<Rightarrow> nat \<Rightarrow> nat" where
  "progressOf bytes totalSize =
     (if bytes = 0 then 0
      else if totalSize = 0 then 99
      else nat (min 99 (mathRound (times100 (toDouble (int bytes) (int totalSize))))))"

definition updateFileStatus :: "(fileItem \<Rightarrow> fileItem) \<Rightarrow> pstate \<Rightarrow> pstate" where
  "updateFileStatus updates s =
     s\<lparr>fileEntry := updates (fileEntry s), history := history s @ [updates (fileEntry s)]\<rparr>"

text \<open>\<open>record.embedding && Array.isArray(record.embedding) && record.embedding.length > 0\<close>\<close>

definition hasEmbedding :: "jsval \<Rightarrow> bool" where
  "hasEmbedding e = (truthy e \<and> isArray e \<and> length (elems e) > 0)"

text \<open>
  The three branches on a parsed record (lines 121 to 130): already embedded, nothing
  to embed, or one more entry of the batch.
\<close>

definition classify :: "runtime \<Rightarrow> string \<Rightarrow> jsval \<Rightarrow> jsval \<Rightarrow> jsval \<Rightarrow> pstate \<Rightarrow> pstate" where
  "classify rt line record textToEmbed embedding s =
     (if hasEmbedding embedding
      then s\<lparr>processedLines := processedLines s @ [JSON_stringify rt record],
             processedCount := processedCount s + 1\<rparr>
      else if \<not> truthy textToEmbed
      then s\<lparr>processedLines := processedLines s @ [line],
             processedCount := processedCount s + 1\<rparr>
      else s\<lparr>batch := batch s @ [textToEmbed],
             batchRecords := batchRecords s @ [record]\<rparr>)"

text \<open>
  Lines 132 to 144: a full batch is dispatched.  When \<open>processBatch\<close> throws, the
  statements after it do not run: the batch stays as it is.
\<close>

definition dispatchIfFull :: "runtime \<Rightarrow> provider \<Rightarrow> nat \<Rightarrow> pstate \<Rightarrow> pstate \<times> error option" where
  "dispatchIfFull rt prov totalSize s =
     (if length (batch s) \<ge> BATCH_SIZE
      then (case processBatch rt prov (calls s) (batch s) (batchRecords s) (processedLines s) of
              (calls', records', out', Some e) \<Rightarrow>
                (s\<lparr>calls := calls', batchRecords := records', processedLines := out'\<rparr>, Some e)
            | (calls', records', out', None) \<Rightarrow>
                (updateFileStatus
                   (\<lambda>f. f\<lparr>processed := processedCount s + length (batch s),
                           progress := progressOf (processedBytes s) totalSize\<rparr>)
                   (s\<lparr>calls := calls', processedLines := out',
                      processedCount := processedCount s + length (batch s),
                      batch := [], batchRecords := []\<rparr>),
                 None))
      else (s, None))"

text \<open>The body of the inner \<open>try\<close> (lines 118 to 144): the state it reached, and the exception if it threw.\<close>

definition tryLine :: "runtime \<Rightarrow> provider \<Rightarrow> nat \<Rightarrow> pstate \<Rightarrow> string \<Rightarrow> pstate \<times> error option" where
  "tryLine rt prov totalSize s line =
     (case JSON_parse rt line of
        None \<Rightarrow> (s, Some (SyntaxError ''Unexpected token''))
      | Some record \<Rightarrow>
          (case getEmbeddingText rt record of
             Inl e \<Rightarrow> (s, Some e)
           | Inr textToEmbed \<Rightarrow>
               (case getProp record ''embedding'' of
                  Inl e \<Rightarrow> (s, Some e)
                | Inr embedding \<Rightarrow>
                    dispatchIfFull rt prov totalSize
                      (classify rt line record textToEmbed embedding s))))"

text \<open>
  One turn of the \<open>for await\<close> loop (lines 114 to 150).  The inner \<open>catch\<close> takes every
  exception of the body, whatever threw it, and pushes the raw line.
\<close>

definition step :: "runtime \<Rightarrow> provider \<Rightarrow> nat \<Rightarrow> pstate \<Rightarrow> string \<Rightarrow> pstate" where
  "step rt prov totalSize s line =
     (case tryLine rt prov totalSize
             (s\<lparr>processedBytes := processedBytes s + utf8Length (line @ [CHR 0x0A])\<rparr>) line of
        (s', None) \<Rightarrow> s'
      | (s', Some e) \<Rightarrow> s'\<lparr>processedLines := processedLines s' @ [line]\<rparr>)"

fun forAwait :: "runtime \<Rightarrow> provider \<Rightarrow> nat \<Rightarrow> pstate \<Rightarrow> string list \<Rightarrow> pstate" where
  "forAwait rt prov totalSize s [] = s"
| "forAwait rt prov totalSize s (line # lines) =
     forAwait rt prov totalSize (step rt prov totalSize s line) lines"

text \<open>Lines 152 to 171: the last, partial batch, then the blob; the outer \<open>catch\<close> on an exception.\<close>

definition finish :: "runtime \<Rightarrow> provider \<Rightarrow> pstate \<Rightarrow> pstate" where
  "finish rt prov s =
     (case (if batch s \<noteq> []
            then (case processBatch rt prov (calls s) (batch s) (batchRecords s) (processedLines s) of
                    (calls', records', out', Some e) \<Rightarrow>
                      (s\<lparr>calls := calls', batchRecords := records', processedLines := out'\<rparr>, Some e)
                  | (calls', records', out', None) \<Rightarrow>
                      (s\<lparr>calls := calls', batchRecords := records', processedLines := out',
                         processedCount := processedCount s + length (batch s)\<rparr>, None))
            else (s, None)) of
        (s', Some err) \<Rightarrow>
          updateFileStatus (\<lambda>f. f\<lparr>status := Failed, error := Some (message err)\<rparr>) s'
      | (s', None) \<Rightarrow>
          updateFileStatus
            (\<lambda>f. f\<lparr>status := Done, progress := 100, processed := processedCount s',
                    totalRecords := processedCount s',
                    resultUrl := Some (join [CHR 0x0A] (processedLines s'))\<rparr>) s')"

text \<open>
  \<open>processFile(fileItem)\<close>, on the lines that \<open>lineIterator\<close> yields for the file and the
  file's size in bytes.
\<close>

definition initialState :: "fileItem \<Rightarrow> pstate" where
  "initialState fileItem =
     \<lparr>processedBytes = 0, processedLines = [], batch = [], batchRecords = [],
      processedCount = 0, calls = [], fileEntry = fileItem, history = []\<rparr>"

definition processFile :: "runtime \<Rightarrow> provider \<Rightarrow> nat \<Rightarrow> string list \<Rightarrow> fileItem \<Rightarrow> pstate" where
  "processFile rt prov totalSize lines fileItem =
     finish rt prov
       (forAwait rt prov totalSize
          (updateFileStatus (\<lambda>f. f\<lparr>status := Processing, progress := 0\<rparr>)
             (initialState fileItem))
          lines)"

text \<open>What \<open>addFiles\<close> puts into the list for a new file.\<close>

definition newFile :: fileItem where
  "newFile = \<lparr>status = Pending, progress = 0, totalRecords = 0, processed = 0,
              resultUrl = None, error = None\<rparr>"

section \<open>The script \<open>embed_jsonl.js\<close>\<close>

text \<open>
  The script embeds one record per request.  Its outside world: whether
  \<open>EMBEDDING_PROVIDER\<close> is \<open>'transformers'\<close> (the first version of the script has the
  remote path only, which is \<open>useTransformers = False\<close>), the remote service (answering the
  \<open>input\<close> string, given the number of requests before), and what loading the local
  model resolves to: an extractor from the cleaned text to \<open>Array.from(output.data)\<close>,
  or a rejection.
\<close>

type_synonym extractor = "string \<Rightarrow> error + rat list"

record scriptEnv =
  useTransformers :: bool
  api :: "nat \<Rightarrow> string \<Rightarrow> error + response"
  transformerPipeline :: "error + extractor"

record sstate =
  successCount :: nat
  errorCount :: nat
  skippedCount :: nat
  written :: "string list"
  requests :: "string list"
  extracted :: "string list"

text \<open>\<open>fetchEmbeddingViaApi\<close> (in the first version, the body of \<open>fetchEmbedding\<close>'s \<open>try\<close>).\<close>

definition fetchEmbeddingViaApi :: "scriptEnv \<Rightarrow> sstate \<Rightarrow> jsval \<Rightarrow> sstate \<times> (error + jsval)" where
  "fetchEmbeddingViaApi env s text =
     (case callReplace replaceNewlines text of
        Inl e \<Rightarrow> (s, Inl e)
      | Inr cleanText \<Rightarrow>
          (s\<lparr>requests := requests s @ [cleanText]\<rparr>,
           (case api env (length (requests s)) cleanText of
              Inl e \<Rightarrow> Inl e
            | Inr (Response st body json) \<Rightarrow>
                if \<not> ok st then Inl (Error (''API Error: '' @ decimal st @ '' '' @ body))
                else (case json of
                        None \<Rightarrow> Inl (SyntaxError ''Unexpected token'')
                      | Some data \<Rightarrow>
                          andThen (getProp data ''data'') (\<lambda>d.
                          andThen (if truthy d then index0 d else Inr d) (\<lambda>d0.
                          andThen (if truthy d0 then getProp d0 ''embedding'' else Inr d0) (\<lambda>e.
                            if truthy e then Inr e
                            else if isArray data then Inr data
                            else Inl (Error ''Unexpected response format''))))))))"

definition fetchEmbeddingWithTransformers :: "scriptEnv \<Rightarrow> sstate \<Rightarrow> jsval \<Rightarrow> sstate \<times> (error + jsval)" where
  "fetchEmbeddingWithTransformers env s text =
     (case transformerPipeline env of
        Inl e \<Rightarrow> (s, Inl e)
      | Inr extractor \<Rightarrow>
          (case callReplace cleanTextLocal text of
             Inl e \<Rightarrow> (s, Inl e)
           | Inr cleanText \<Rightarrow>
               (s\<lparr>extracted := extracted s @ [cleanText]\<rparr>,
                (case extractor cleanText of
                   Inl e \<Rightarrow> Inl e
                 | Inr v \<Rightarrow> Inr (JArr (map JNum v))))))"

text \<open>\<open>fetchEmbedding\<close>: every exception is logged and becomes \<open>null\<close>.\<close>

definition fetchEmbedding :: "scriptEnv \<Rightarrow> sstate \<Rightarrow> jsval \<Rightarrow> sstate \<times> jsval" where
  "fetchEmbedding env s text =
     (case (if useTransformers env then fetchEmbeddingWithTransformers env s text
            else fetchEmbeddingViaApi env s text) of
        (s', Inl e) \<Rightarrow> (s', JNull)
      | (s', Inr v) \<Rightarrow> (s', v))"

text \<open>The body of the \<open>try\<close> of the main loop; \<open>written\<close> collects the chunks given to \<open>outputStream.write\<close>.\<close>

definition tryScriptLine :: "runtime \<Rightarrow> scriptEnv \<Rightarrow> sstate \<Rightarrow> string \<Rightarrow> sstate \<times> error option" where
  "tryScriptLine rt env s line =
     (case JSON_parse rt line of
        None \<Rightarrow> (s, Some (SyntaxError ''Unexpected token''))
      | Some record \<Rightarrow>
          (case getEmbeddingText_script rt record of
             Inl e \<Rightarrow> (s, Some e)
           | Inr textToEmbed \<Rightarrow>
               if \<not> truthy textToEmbed
               then (s\<lparr>skippedCount := skippedCount s + 1,
                       written := written s @ [JSON_stringify rt record @ [CHR 0x0A]]\<rparr>, None)
               else (case getProp record ''embedding'' of
                       Inl e \<Rightarrow> (s, Some e)
                     | Inr embedding \<Rightarrow>
                         if hasEmbedding embedding
                         then (s\<lparr>written := written s @ [JSON_stringify rt record @ [CHR 0x0A]],
                                 successCount := successCount s + 1\<rparr>, None)
                         else (case fetchEmbedding env s textToEmbed of
                                 (s', embedding') \<Rightarrow>
                                   if truthy embedding'
                                   then (case setProp False record ''embedding'' embedding' of
                                           Inl e \<Rightarrow> (s', Some e)
                                         | Inr record' \<Rightarrow>
                                             (s'\<lparr>written := written s' @ [JSON_stringify rt record' @ [CHR 0x0A]],
                                                 successCount := successCount s' + 1\<rparr>, None))
                                   else (s'\<lparr>errorCount := errorCount s' + 1\<rparr>, None)))))"

text \<open>One turn of \<open>for await (const line of rl)\<close>: a blank line is skipped, an exception is counted.\<close>

definition scriptStep :: "runtime \<Rightarrow> scriptEnv \<Rightarrow> sstate \<Rightarrow> string \<Rightarrow> sstate" where
  "scriptStep rt env s line =
     (if trim line = [] then s
      else (case tryScriptLine rt env s line of
              (s', None) \<Rightarrow> s'
            | (s', Some e) \<Rightarrow> s'\<lparr>errorCount := errorCount s' + 1\<rparr>))"

definition initialScript :: sstate where
  "initialScript =
     \<lparr>successCount = 0, errorCount = 0, skippedCount = 0, written = [], requests = [],
      extracted = []\<rparr>"

definition scriptMain :: "runtime \<Rightarrow> scriptEnv \<Rightarrow> string list \<Rightarrow> sstate" where
  "scriptMain rt env lines = foldl (scriptStep rt env) initialScript lines"

section \<open>The local provider: \<open>localEmbedder.js\<close>\<close>

text \<open>
  \<open>cachedPipelines\<close> maps a model identifier to the promise of its pipeline, here to what
  the promise settles to.  \<open>loads\<close> lists the models \<open>pipeline(...)\<close> was called for and
  \<open>extractorCalls\<close> the texts given to an extractor.
\<close>

record lstate =
  cachedPipelines :: "(string \<times> (error + extractor)) list"
  loads :: "string list"
  extractorCalls :: "string list"

definition loadPipeline :: "(string \<Rightarrow> error + extractor) \<Rightarrow> string \<Rightarrow> lstate \<Rightarrow> lstate \<times> (error + extractor)" where
  "loadPipeline pipeline modelId s =
     (case map_of (cachedPipelines s) modelId of
        Some p \<Rightarrow> (s, p)
      | None \<Rightarrow>
          (s\<lparr>cachedPipelines := cachedPipelines s @ [(modelId, pipeline modelId)],
             loads := loads s @ [modelId]\<rparr>, pipeline modelId))"

fun embedEach :: "extractor \<Rightarrow> jsval list \<Rightarrow> rat list list \<Rightarrow> lstate \<Rightarrow> lstate \<times> (error + rat list list)" where
  "embedEach extractor [] embeddings s = (s, Inr embeddings)"
| "embedEach extractor (text # texts) embeddings s =
     (case callReplace cleanTextLocal text of
        Inl e \<Rightarrow> (s, Inl e)
      | Inr cleanText \<Rightarrow>
          (case extractor cleanText of
             Inl e \<Rightarrow> (s\<lparr>extractorCalls := extractorCalls s @ [cleanText]\<rparr>, Inl e)
           | Inr v \<Rightarrow>
               embedEach extractor texts (embeddings @ [v])
                 (s\<lparr>extractorCalls := extractorCalls s @ [cleanText]\<rparr>)))"

definition embedTextsLocally ::
  "(string \<Rightarrow> error + extractor) \<Rightarrow> jsval \<Rightarrow> string \<Rightarrow> lstate \<Rightarrow> lstate \<times> (error + rat list list)" where
  "embedTextsLocally pipeline texts modelId s =
     (if \<not> isArray texts \<or> length (elems texts) = 0 then (s, Inr [])
      else (case loadPipeline pipeline modelId s of
              (s', Inl e) \<Rightarrow> (s', Inl e)
            | (s', Inr extractor) \<Rightarrow> embedEach extractor (elems texts) [] s'))"

section \<open>What the specification says, in its own words\<close>










section \<open>A runtime and inputs for worked examples\<close>

text \<open>
  A runtime given by tables: what \<open>JSON.parse\<close> returns for the lines of an example (it
  throws for every other line) and what \<open>JSON.stringify\<close> prints for its values.
\<close>

definition tableRuntime :: "(string \<times> jsval) list \<Rightarrow> (jsval \<times> string) list \<Rightarrow> runtime" where
  "tableRuntime parses prints =
     \<lparr>JSON_parse = map_of parses,
      JSON_stringify = (\<lambda>v. case map_of prints v of None \<Rightarrow> [] | Some s \<Rightarrow> s),
      Number_toString = (\<lambda>n. [])\<rparr>"

text \<open>
  The lines of the examples, with what the runtime parses them to and prints for them,
  and a provider that answers every text with the embedding \<open>[0.1]\<close>.
\<close>

definition line_a :: string where
  \<open>line_a = ''{"text":"a"}''\<close>

definition line_b :: string where
  \<open>line_b = ''{"text":"b"}''\<close>

definition line_id :: string where
  \<open>line_id = ''{"id":1}''\<close>

definition out_a :: string where
  \<open>out_a = ''{"text":"a","embedding":[0.1]}''\<close>

definition out_b :: string where
  \<open>out_b = ''{"text":"b","embedding":[0.1]}''\<close>

definition out_a_half :: string where
  \<open>out_a_half = ''{"text":"a","embedding":[0.5]}''\<close>

definition exampleRuntime :: runtime where
  "exampleRuntime = tableRuntime
     [(line_a, JObj [(''text'', JStr ''a'')]),
      (line_b, JObj [(''text'', JStr ''b'')]),
      (line_id, JObj [(''id'', JNum 1)]),
      (out_a, JObj [(''text'', JStr ''a''), (''embedding'', JArr [JNum (1 / 10)])]),
      (out_b, JObj [(''text'', JStr ''b''), (''embedding'', JArr [JNum (1 / 10)])])]
     [(JObj [(''text'', JStr ''a''), (''embedding'', JArr [JNum (1 / 10)])], out_a),
      (JObj [(''text'', JStr ''b''), (''embedding'', JArr [JNum (1 / 10)])], out_b),
      (JObj [(''text'', JStr ''a''), (''embedding'', JArr [JNum (1 / 2)])], out_a_half),
      (JObj [(''id'', JNum 1)], line_id)]"

definition stubProvider :: provider where
  "stubProvider n texts =
     Inr (Response 200 []
       (Some (JObj [(''data'', JArr (map (\<lambda>t. JObj [(''embedding'', JArr [JNum (1 / 10)])]) texts))])))"


text \<open>
  A remote service whose body is a bare array, with no \<open>data\<close>, and the script set to
  call it.
\<close>

definition arrayApi :: "nat \<Rightarrow> string \<Rightarrow> error + response" where
  "arrayApi n t = Inr (Response 200 [] (Some (JArr [JNum (1 / 2)])))"

definition exampleEnv :: scriptEnv where
  "exampleEnv = \<lparr>useTransformers = False, api = arrayApi,
                  transformerPipeline = Inl (Error ''not loaded'')\<rparr>"

text \<open>
  A provider whose answer to request number \<open>k\<close> (counting from 0) is a \<open>503\<close>, and
  who answers like \<open>stubProvider\<close> otherwise; inputs of nine and of twenty records to
  embed.
\<close>

definition failAt :: "nat \<Rightarrow> provider" where
  "failAt k n texts = (if n = k then Inr (Response 503 ''busy'' None) else stubProvider n texts)"

definition nine_a :: "string list" where
  "nine_a = [line_a, line_a, line_a, line_a, line_a, line_a, line_a, line_a, line_a]"

definition twenty_a :: "string list" where
  "twenty_a = [line_a, line_a, line_a, line_a, line_a, line_a, line_a, line_a, line_a, line_a,
               line_a, line_a, line_a, line_a, line_a, line_a, line_a, line_a, line_a, line_a]"






text \<open>
  A line whose record is embedded already and has a question that cannot be printed,
  with a runtime that parses it.
\<close>

definition line_odd :: string where
  \<open>line_odd = ''{"question":{"toString":1},"answer":"x","embedding":[0.1]}''\<close>

definition oddRuntime :: runtime where
  "oddRuntime = tableRuntime
     [(line_odd, JObj [(''question'', JObj [(''toString'', JNum 1)]), (''answer'', JStr ''x''),
                       (''embedding'', JArr [JNum (1 / 10)])])]
     []"



definition emptyLocal :: lstate where
  "emptyLocal = \<lparr>cachedPipelines = [], loads = [], extractorCalls = []\<rparr>"

text \<open>A local model that answers every text with the vector \<open>[1]\<close>.\<close>

definition unitPipeline :: "string \<Rightarrow> error + extractor" where
  "unitPipeline modelId = Inr (\<lambda>t. Inr [1])"

section \<open>One turn of the loop, by the kind of line\<close>

text \<open>
  What the loop body decides about a line before anything is dispatched: the line does
  not parse (or reading its fields throws), the record has nothing to embed, the record
  is embedded already, or the record joins the batch with its text.
\<close>

datatype disposition = Unparsed | Untouched | Embedded jsval | Needs jsval jsval

definition classifyLine :: "runtime \<Rightarrow> string \<Rightarrow> disposition" where
  "classifyLine rt line =
     (case JSON_parse rt line of
        None \<Rightarrow> Unparsed
      | Some r \<Rightarrow>
          (case getEmbeddingText rt r of
             Inl e \<Rightarrow> Unparsed
           | Inr t \<Rightarrow>
               (case getProp r ''embedding'' of
                  Inl e \<Rightarrow> Unparsed
                | Inr e \<Rightarrow>
                    if hasEmbedding e then Embedded r
                    else if \<not> truthy t then Untouched
                    else Needs r t)))"

definition consumed :: "pstate \<Rightarrow> string \<Rightarrow> pstate" where
  "consumed s line = s\<lparr>processedBytes := processedBytes s + utf8Length (line @ [CHR 0x0A])\<rparr>"

text \<open>The inner \<open>catch\<close>, applied to the outcome of the body.\<close>

definition caught :: "string \<Rightarrow> pstate \<times> error option \<Rightarrow> pstate" where
  "caught line res =
     (case res of
        (s', None) \<Rightarrow> s'
      | (s', Some e) \<Rightarrow> s'\<lparr>processedLines := processedLines s' @ [line]\<rparr>)"

section \<open>The run when no dispatch fails: what to expect\<close>

text \<open>A record after \<open>record.embedding = e\<close>.\<close>

definition withEmbedding :: "jsval \<Rightarrow> jsval \<Rightarrow> jsval" where
  "withEmbedding r e = (case r of JObj fs \<Rightarrow> JObj (setField ''embedding'' e fs) | _ \<Rightarrow> r)"

text \<open>
  A provider under which every dispatch succeeds: whatever is requested, the response is
  read as one embedding per text.
\<close>

definition reliable :: "provider \<Rightarrow> bool" where
  "reliable prov = (\<forall>n ts. \<exists>es. readEmbeddings (prov n ts) = Inr es \<and> length es = length ts)"

text \<open>The embeddings read from the answer to request number \<open>n\<close> (counting from 0) for the texts \<open>ts\<close>.\<close>

definition embeddingsAt :: "provider \<Rightarrow> nat \<Rightarrow> string list \<Rightarrow> jsval list" where
  "embeddingsAt prov n ts = (case readEmbeddings (prov n ts) of Inr es \<Rightarrow> es | Inl e \<Rightarrow> [])"

fun isObject :: "jsval \<Rightarrow> bool" where
  "isObject (JObj fs) = True"
| "isObject v = False"

fun isNeeds :: "disposition \<Rightarrow> bool" where
  "isNeeds (Needs r t) = True"
| "isNeeds d = False"

text \<open>
  Of a stretch of input lines: the texts and records that join the batch, what is pushed
  to the output at once, and the texts as they are sent (newlines replaced).
\<close>

definition neededTexts :: "runtime \<Rightarrow> string list \<Rightarrow> jsval list" where
  "neededTexts rt seg = concat (map (\<lambda>l. case classifyLine rt l of Needs r t \<Rightarrow> [t] | _ \<Rightarrow> []) seg)"

definition neededRecords :: "runtime \<Rightarrow> string list \<Rightarrow> jsval list" where
  "neededRecords rt seg = concat (map (\<lambda>l. case classifyLine rt l of Needs r t \<Rightarrow> [r] | _ \<Rightarrow> []) seg)"

definition immediateOutput :: "runtime \<Rightarrow> string list \<Rightarrow> string list" where
  "immediateOutput rt seg =
     concat (map (\<lambda>l. case classifyLine rt l of
                         Needs r t \<Rightarrow> []
                       | Embedded r \<Rightarrow> [JSON_stringify rt r]
                       | _ \<Rightarrow> [l]) seg)"

fun textOf :: "jsval \<Rightarrow> string" where
  "textOf (JStr x) = x"
| "textOf v = []"

fun isString :: "jsval \<Rightarrow> bool" where
  "isString (JStr x) = True"
| "isString v = False"

text \<open>Every text to embed is a string (\<open>replace\<close> throws on anything else).\<close>

definition stringTexts :: "runtime \<Rightarrow> string list \<Rightarrow> bool" where
  "stringTexts rt lines = list_all isString (neededTexts rt lines)"

definition sentTexts :: "runtime \<Rightarrow> string list \<Rightarrow> string list" where
  "sentTexts rt seg = map (\<lambda>t. replaceNewlines (textOf t)) (neededTexts rt seg)"

text \<open>What the dispatch of the batch of a stretch of lines pushes, when it is request number \<open>n\<close>.\<close>

definition embeddedOutput :: "runtime \<Rightarrow> provider \<Rightarrow> nat \<Rightarrow> string list \<Rightarrow> string list" where
  "embeddedOutput rt prov n seg =
     map (JSON_stringify rt)
       (map2 withEmbedding (neededRecords rt seg) (embeddingsAt prov n (sentTexts rt seg)))"



text \<open>
  The loop invariant while no dispatch has failed: \<open>cur\<close> are the lines read since the
  last dispatch, \<open>pre\<close> the output up to that dispatch, \<open>cs\<close> the requests sent.
\<close>

definition tracks :: "runtime \<Rightarrow> pstate \<Rightarrow> string list \<Rightarrow> string list \<Rightarrow> string list list \<Rightarrow> bool" where
  "tracks rt s cur pre cs =
     (processedLines s = pre @ immediateOutput rt cur \<and>
      batch s = neededTexts rt cur \<and>
      batchRecords s = neededRecords rt cur \<and>
      calls s = cs \<and>
      length (neededTexts rt cur) < BATCH_SIZE \<and>
      stringTexts rt cur)"

text \<open>A list cut into consecutive pieces of \<open>k\<close> elements, the last one shorter when the length is no multiple of \<open>k\<close>.\<close>

function chunksOf :: "nat \<Rightarrow> 'a list \<Rightarrow> 'a list list" where
  "chunksOf k xs = (if k = 0 \<or> xs = [] then [] else take k xs # chunksOf k (drop k xs))"
  by pat_completeness auto

termination
  by (relation "measure (\<lambda>(k, xs). length xs)") auto

declare chunksOf.simps [simp del]

section \<open>The output of the script: what to expect\<close>




section \<open>Progress reports: what to expect\<close>





section \<open>Records that are embedded already: what to expect\<close>

text \<open>
  A line whose record carries a non-empty \<open>embedding\<close> array; what the pipeline emits for
  a line it only re-serialises; and the lines on which \<open>JSON.parse\<close> undoes
  \<open>JSON.stringify\<close>, as it does on every value that came out of \<open>JSON.parse\<close>.
\<close>

definition alreadyEmbedded :: "runtime \<Rightarrow> string \<Rightarrow> bool" where
  "alreadyEmbedded rt line =
     (case JSON_parse rt line of
        Some (JObj fs) \<Rightarrow> (case field fs ''embedding'' of JArr (x # xs) \<Rightarrow> True | _ \<Rightarrow> False)
      | _ \<Rightarrow> False)"




section \<open>Text extraction follows the priority order\<close>






text \<open>
  C7, as stated, fails where it says that extraction never raises: a record whose
  \<open>question\<close> is the object \<open>{"toString":1}\<close> and whose \<open>answer\<close> is \<open>"a"\<close> makes the
  template literal throw, in \<open>App.jsx\<close> and in the script alike.
\<close>

theorem getEmbeddingText_priority_counterexample:
  "getEmbeddingText (tableRuntime [] [])
     (JObj [(''question'', JObj [(''toString'', JNum 1)]), (''answer'', JStr ''a'')])
   = Inl (TypeError ''Cannot convert object to primitive value'') \<and>
   getEmbeddingText_script (tableRuntime [] [])
     (JObj [(''question'', JObj [(''toString'', JNum 1)]), (''answer'', JStr ''a'')])
   = Inl (TypeError ''Cannot convert object to primitive value'')"
  by (simp add: getEmbeddingText_script_def getEmbeddingText_def)



text \<open>
  Off the records: the script's guard answers the empty string for every value that is
  not an object, while in \<open>App.jsx\<close> the line \<open>null\<close> makes the property read throw (the
  inner \<open>catch\<close> of \<open>processFile\<close> then treats the line like one that does not parse).
\<close>

lemma getEmbeddingText_script_other:
  "\<forall>fs. r \<noteq> JObj fs \<Longrightarrow> getEmbeddingText_script rt r = Inr (JStr [])"
  by (cases r) (simp_all add: getEmbeddingText_script_def getEmbeddingText_def)

lemma getEmbeddingText_null: "\<exists>e. getEmbeddingText rt JNull = Inl e"
  by (simp add: getEmbeddingText_def)

section \<open>The local entry point returns at once on nothing to embed\<close>

text \<open>
  C10.  Called with an argument that is not an array, or with the empty array,
  \<open>embedTextsLocally\<close> returns the empty list and leaves the state as it was: no model
  is loaded (\<open>cachedPipelines\<close> and \<open>loads\<close> unchanged) and no extractor is called
  (\<open>extractorCalls\<close> unchanged).
\<close>

theorem embedTextsLocally_nothing:
  "\<not> isArray texts \<or> elems texts = [] \<Longrightarrow>
   embedTextsLocally pipeline texts modelId s = (s, Inr [])"
  by (auto simp add: embedTextsLocally_def)

theorem embedTextsLocally_nothing_witness:
  "embedTextsLocally unitPipeline (JArr []) ''m'' emptyLocal = (emptyLocal, Inr []) \<and>
   embedTextsLocally unitPipeline (JStr ''text'') ''m'' emptyLocal = (emptyLocal, Inr []) \<and>
   loads (fst (embedTextsLocally unitPipeline (JArr [JStr ''text'']) ''m'' emptyLocal)) = [''m'']"
  using embedTextsLocally_nothing [of "JArr []" unitPipeline "''m''" emptyLocal]
    embedTextsLocally_nothing [of "JStr ''text''" unitPipeline "''m''" emptyLocal]
  by (simp add: embedTextsLocally_def loadPipeline_def emptyLocal_def unitPipeline_def)

section \<open>The loop body, case by case\<close>

lemma step_Unparsed:
  "classifyLine rt line = Unparsed \<Longrightarrow>
   step rt prov totalSize s line = (consumed s line)\<lparr>processedLines := processedLines s @ [line]\<rparr>"
  by (auto simp: classifyLine_def step_def tryLine_def consumed_def
      split: option.splits sum.splits if_splits)

lemma step_Untouched:
  "classifyLine rt line = Untouched \<Longrightarrow>
   step rt prov totalSize s line =
     caught line (dispatchIfFull rt prov totalSize
       ((consumed s line)\<lparr>processedLines := processedLines s @ [line],
                           processedCount := processedCount s + 1\<rparr>))"
  by (auto simp: classifyLine_def step_def tryLine_def consumed_def caught_def classify_def
      split: option.splits sum.splits if_splits)

lemma step_Embedded:
  "classifyLine rt line = Embedded r \<Longrightarrow>
   step rt prov totalSize s line =
     caught line (dispatchIfFull rt prov totalSize
       ((consumed s line)\<lparr>processedLines := processedLines s @ [JSON_stringify rt r],
                           processedCount := processedCount s + 1\<rparr>))"
  by (auto simp: classifyLine_def step_def tryLine_def consumed_def caught_def classify_def
      split: option.splits sum.splits if_splits)

lemma step_Needs:
  "classifyLine rt line = Needs r t \<Longrightarrow>
   step rt prov totalSize s line =
     caught line (dispatchIfFull rt prov totalSize
       ((consumed s line)\<lparr>batch := batch s @ [t], batchRecords := batchRecords s @ [r]\<rparr>))"
  by (auto simp: classifyLine_def step_def tryLine_def consumed_def caught_def classify_def
      split: option.splits sum.splits if_splits)

lemma Needs_object: "classifyLine rt line = Needs r t \<Longrightarrow> \<exists>fs. r = JObj fs"
  by (cases r)
    (auto simp: classifyLine_def getEmbeddingText_def split: option.splits sum.splits if_splits)

lemma Embedded_parse: "classifyLine rt line = Embedded r \<Longrightarrow> JSON_parse rt line = Some r"
  by (auto simp: classifyLine_def split: option.splits sum.splits if_splits)


section \<open>The run when no dispatch fails\<close>

lemma forEachRecord_objects:
  "list_all isObject rs \<Longrightarrow> length es = length rs \<Longrightarrow>
   forEachRecord rt rs es out =
     (map2 withEmbedding rs es, out @ map (JSON_stringify rt) (map2 withEmbedding rs es), None)"
proof (induction rs arbitrary: es out)
  case Nil
  then show ?case by simp
next
  case (Cons r rs)
  then obtain e es' where es: "es = e # es'" by (cases es) auto
  from Cons.prems obtain fs where r: "r = JObj fs" by (cases r) auto
  from Cons.prems es have "list_all isObject rs" "length es' = length rs" by auto
  from Cons.IH[OF this] show ?case by (simp add: es r withEmbedding_def)
qed

lemma mapE_strings: "mapE (callReplace f) (map JStr ts) = Inr (map f ts)"
  by (induction ts) auto

lemma processBatch_reliable:
  assumes "reliable prov" "list_all isObject records" "length records = length ts"
  shows "processBatch rt prov cs (map JStr ts) records out =
     (cs @ [map replaceNewlines ts],
      map2 withEmbedding records (embeddingsAt prov (length cs) (map replaceNewlines ts)),
      out @ map (JSON_stringify rt)
        (map2 withEmbedding records (embeddingsAt prov (length cs) (map replaceNewlines ts))),
      None)"
proof -
  from assms(1) obtain es where es: "readEmbeddings (prov (length cs) (map replaceNewlines ts)) = Inr es"
    "length es = length ts" unfolding reliable_def by (metis length_map)
  then have at: "embeddingsAt prov (length cs) (map replaceNewlines ts) = es"
    by (simp add: embeddingsAt_def)
  show ?thesis
    using es assms(2,3)
    by (simp add: processBatch_def fetchBatchEmbeddings_def mapE_strings at forEachRecord_objects)
qed

lemma tracks_small: "tracks rt s cur pre cs \<Longrightarrow> length (batch s) < BATCH_SIZE"
  by (simp add: tracks_def)

lemma neededTexts_append: "neededTexts rt (xs @ ys) = neededTexts rt xs @ neededTexts rt ys"
  by (simp add: neededTexts_def)

lemma neededRecords_append: "neededRecords rt (xs @ ys) = neededRecords rt xs @ neededRecords rt ys"
  by (simp add: neededRecords_def)

lemma immediateOutput_append: "immediateOutput rt (xs @ ys) = immediateOutput rt xs @ immediateOutput rt ys"
  by (simp add: immediateOutput_def)

lemma stringTexts_append: "stringTexts rt (xs @ ys) = (stringTexts rt xs \<and> stringTexts rt ys)"
  by (simp add: stringTexts_def neededTexts_append)

lemma neededRecords_objects: "list_all isObject (neededRecords rt seg)"
proof (induction seg)
  case Nil
  then show ?case by (simp add: neededRecords_def)
next
  case (Cons l seg)
  have "list_all isObject (neededRecords rt [l])"
    using Needs_object[of rt l] by (auto simp: neededRecords_def split: disposition.splits)
  with Cons show ?case
    using neededRecords_append[of rt "[l]" seg] by simp
qed

lemma neededRecords_length: "length (neededRecords rt seg) = length (neededTexts rt seg)"
  by (induction seg) (auto simp: neededRecords_def neededTexts_def split: disposition.splits)

lemma strings_map: "list_all isString ts \<Longrightarrow> map (\<lambda>t. JStr (textOf t)) ts = ts"
proof (induction ts)
  case Nil
  then show ?case by simp
next
  case (Cons t ts)
  then show ?case by (cases t) auto
qed

lemma dispatch_not_full:
  "length (batch s) < BATCH_SIZE \<Longrightarrow> dispatchIfFull rt prov totalSize s = (s, None)"
  by (simp add: dispatchIfFull_def)

lemma tracks_batch:
  assumes "tracks rt s cur pre cs" "reliable prov"
  shows "processBatch rt prov (calls s) (batch s) (batchRecords s) (processedLines s) =
     (cs @ [sentTexts rt cur],
      map2 withEmbedding (neededRecords rt cur) (embeddingsAt prov (length cs) (sentTexts rt cur)),
      pre @ immediateOutput rt cur @ embeddedOutput rt prov (length cs) cur, None)"
proof -
  let ?ts = "map textOf (neededTexts rt cur)"
  from assms(1) have "list_all isString (neededTexts rt cur)" "batch s = neededTexts rt cur"
    by (simp_all add: tracks_def stringTexts_def)
  then have b: "batch s = map JStr ?ts"
    by (simp add: strings_map comp_def)
  have l: "length (neededRecords rt cur) = length ?ts"
    by (simp add: neededRecords_length)
  from assms(1) have n: "calls s = cs" "batchRecords s = neededRecords rt cur"
    "processedLines s = pre @ immediateOutput rt cur"
    by (simp_all add: tracks_def)
  have st: "map replaceNewlines ?ts = sentTexts rt cur"
    by (simp add: sentTexts_def)
  show ?thesis
    using processBatch_reliable[OF assms(2) neededRecords_objects l, of rt "calls s" "processedLines s"]
    unfolding b[symmetric] n st by (simp add: embeddedOutput_def)
qed

lemma finish_tracks:
  assumes "tracks rt s cur pre cs" "reliable prov"
  shows "processedLines (finish rt prov s) = pre @ immediateOutput rt cur @ embeddedOutput rt prov (length cs) cur \<and>
         calls (finish rt prov s) = (if neededTexts rt cur = [] then cs else cs @ [sentTexts rt cur]) \<and>
         status (fileEntry (finish rt prov s)) = Done \<and>
         resultUrl (fileEntry (finish rt prov s)) = Some (join [CHR 0x0A] (processedLines (finish rt prov s)))"
proof (cases "batch s = []")
  case True
  with assms(1) have "neededTexts rt cur = []" by (simp add: tracks_def)
  then have "neededRecords rt cur = []"
    using neededRecords_length[of rt cur] by simp
  then have "embeddedOutput rt prov (length cs) cur = []" by (simp add: embeddedOutput_def)
  moreover from assms(1) have "processedLines s = pre @ immediateOutput rt cur" "calls s = cs"
    by (simp_all add: tracks_def)
  ultimately show ?thesis using True \<open>neededTexts rt cur = []\<close>
    by (simp add: finish_def updateFileStatus_def)
next
  case False
  with assms(1) have "neededTexts rt cur \<noteq> []" by (simp add: tracks_def)
  with False show ?thesis
    using tracks_batch[OF assms]
    by (simp add: finish_def updateFileStatus_def)
qed

lemma tracks_snoc_immediate:
  assumes "tracks rt s cur pre cs" "\<not> isNeeds (classifyLine rt l)"
    "processedLines s' = processedLines s @ immediateOutput rt [l]"
    "batch s' = batch s" "batchRecords s' = batchRecords s" "calls s' = calls s"
  shows "tracks rt s' (cur @ [l]) pre cs"
proof -
  from assms(2) have "neededTexts rt [l] = []" "neededRecords rt [l] = []"
    by (cases "classifyLine rt l"; simp add: neededTexts_def neededRecords_def)+
  with assms show ?thesis
    by (simp add: tracks_def neededTexts_append neededRecords_append immediateOutput_append
        stringTexts_def)
qed

lemma step_tracks:
  assumes "tracks rt s cur pre cs" "reliable prov" "stringTexts rt [l]"
  shows "if isNeeds (classifyLine rt l) \<and> length (neededTexts rt cur) + 1 \<ge> BATCH_SIZE
         then tracks rt (step rt prov totalSize s l) []
                (pre @ immediateOutput rt (cur @ [l]) @ embeddedOutput rt prov (length cs) (cur @ [l]))
                (cs @ [sentTexts rt (cur @ [l])])
         else tracks rt (step rt prov totalSize s l) (cur @ [l]) pre cs"
proof (cases "classifyLine rt l")
  case Unparsed
  then have "tracks rt (step rt prov totalSize s l) (cur @ [l]) pre cs"
    by (intro tracks_snoc_immediate[OF assms(1)])
      (simp_all add: step_Unparsed consumed_def immediateOutput_def)
  then show ?thesis using Unparsed by simp
next
  case Untouched
  have nf: "length (batch s) < BATCH_SIZE" using assms(1) by (rule tracks_small)
  from Untouched have "tracks rt (step rt prov totalSize s l) (cur @ [l]) pre cs"
    by (intro tracks_snoc_immediate[OF assms(1)])
      (simp_all add: step_Untouched dispatch_not_full nf caught_def consumed_def immediateOutput_def)
  then show ?thesis using Untouched by simp
next
  case (Embedded r)
  have nf: "length (batch s) < BATCH_SIZE" using assms(1) by (rule tracks_small)
  from Embedded have "tracks rt (step rt prov totalSize s l) (cur @ [l]) pre cs"
    by (intro tracks_snoc_immediate[OF assms(1)])
      (simp_all add: step_Embedded dispatch_not_full nf caught_def consumed_def immediateOutput_def)
  then show ?thesis using Embedded by simp
next
  case (Needs r t)
  let ?s1 = "(consumed s l)\<lparr>batch := batch s @ [t], batchRecords := batchRecords s @ [r]\<rparr>"
  have nt: "neededTexts rt (cur @ [l]) = neededTexts rt cur @ [t]"
    and nr: "neededRecords rt (cur @ [l]) = neededRecords rt cur @ [r]"
    and im: "immediateOutput rt (cur @ [l]) = immediateOutput rt cur"
    using Needs by (simp_all add: neededTexts_def neededRecords_def immediateOutput_def)
  have st: "stringTexts rt (cur @ [l])"
    using assms(1,3) by (simp add: stringTexts_append tracks_def)
  have t1: "processedLines ?s1 = pre @ immediateOutput rt (cur @ [l])"
    "batch ?s1 = neededTexts rt (cur @ [l])" "batchRecords ?s1 = neededRecords rt (cur @ [l])"
    "calls ?s1 = cs"
    using assms(1) by (simp_all add: tracks_def consumed_def nt nr im)
  show ?thesis
  proof (cases "length (neededTexts rt cur) + 1 \<ge> BATCH_SIZE")
    case False
    then have small: "length (batch ?s1) < BATCH_SIZE"
      by (simp add: t1 nt)
    then have "step rt prov totalSize s l = ?s1"
      by (simp add: step_Needs[OF Needs] dispatch_not_full caught_def)
    moreover have "tracks rt ?s1 (cur @ [l]) pre cs"
      using t1 small st by (simp add: tracks_def)
    ultimately show ?thesis using False by simp
  next
    case True
    have full: "length (batch ?s1) \<ge> BATCH_SIZE"
      using True by (simp add: t1 nt)
    let ?ts = "map textOf (neededTexts rt (cur @ [l]))"
    have b: "batch ?s1 = map JStr ?ts"
      using st t1(2) by (simp add: stringTexts_def strings_map comp_def)
    have len: "length (neededRecords rt (cur @ [l])) = length ?ts"
      by (simp add: neededRecords_length)
    have pb: "processBatch rt prov (calls ?s1) (batch ?s1) (batchRecords ?s1) (processedLines ?s1) =
       (calls ?s1 @ [sentTexts rt (cur @ [l])],
        map2 withEmbedding (neededRecords rt (cur @ [l])) (embeddingsAt prov (length cs) (sentTexts rt (cur @ [l]))),
        pre @ immediateOutput rt (cur @ [l]) @ embeddedOutput rt prov (length cs) (cur @ [l]), None)"
      using processBatch_reliable[OF assms(2) neededRecords_objects len, of rt "calls ?s1" "processedLines ?s1"]
      unfolding b[symmetric] t1 by (simp add: sentTexts_def embeddedOutput_def comp_def)
    have "tracks rt (step rt prov totalSize s l) []
            (pre @ immediateOutput rt (cur @ [l]) @ embeddedOutput rt prov (length cs) (cur @ [l]))
                (cs @ [sentTexts rt (cur @ [l])])"
      unfolding step_Needs[OF Needs] dispatchIfFull_def
      using full pb t1(4)
      by (simp add: caught_def updateFileStatus_def tracks_def immediateOutput_def neededTexts_def
          neededRecords_def stringTexts_def BATCH_SIZE_def)
    then show ?thesis using True Needs by simp
  qed
qed







lemma initial_tracks: "tracks rt (updateFileStatus g (initialState f)) [] [] []"
  by (simp add: tracks_def updateFileStatus_def initialState_def immediateOutput_def neededTexts_def
      neededRecords_def stringTexts_def BATCH_SIZE_def)

lemma chunksOf_Nil: "chunksOf k [] = []"
  by (simp add: chunksOf.simps)

lemma chunksOf_short: "xs \<noteq> [] \<Longrightarrow> length xs \<le> k \<Longrightarrow> chunksOf k xs = [xs]"
  by (subst chunksOf.simps) (cases xs; auto simp: chunksOf_Nil)

lemma chunksOf_full: "0 < k \<Longrightarrow> length xs = k \<Longrightarrow> chunksOf k (xs @ ys) = xs # chunksOf k ys"
  by (subst chunksOf.simps) auto

lemma sentTexts_append: "sentTexts rt (xs @ ys) = sentTexts rt xs @ sentTexts rt ys"
  by (simp add: sentTexts_def neededTexts_append)

lemma sentTexts_length: "length (sentTexts rt xs) = length (neededTexts rt xs)"
  by (simp add: sentTexts_def)

lemma run_calls:
  assumes "reliable prov"
  shows "tracks rt s cur pre cs \<Longrightarrow> stringTexts rt ls \<Longrightarrow>
     calls (finish rt prov (forAwait rt prov totalSize s ls)) =
       cs @ chunksOf BATCH_SIZE (sentTexts rt (cur @ ls))"
proof (induction ls arbitrary: s cur pre cs)
  case Nil
  have "length (sentTexts rt cur) < BATCH_SIZE"
    using Nil(1) by (simp add: tracks_def sentTexts_length)
  then have "neededTexts rt cur \<noteq> [] \<Longrightarrow> chunksOf BATCH_SIZE (sentTexts rt cur) = [sentTexts rt cur]"
    by (intro chunksOf_short) (auto simp: sentTexts_def)
  moreover have "neededTexts rt cur = [] \<Longrightarrow> chunksOf BATCH_SIZE (sentTexts rt cur) = []"
    by (simp add: sentTexts_def chunksOf_Nil)
  ultimately show ?case using finish_tracks[OF Nil(1) assms] by simp
next
  case (Cons l ls)
  from Cons.prems(2) have sl: "stringTexts rt [l]" and sls: "stringTexts rt ls"
    using stringTexts_append[of rt "[l]" ls] by simp_all
  show ?case
  proof (cases "isNeeds (classifyLine rt l) \<and> length (neededTexts rt cur) + 1 \<ge> BATCH_SIZE")
    case True
    with step_tracks[OF Cons.prems(1) assms sl, of totalSize]
    have t: "tracks rt (step rt prov totalSize s l) []
                (pre @ immediateOutput rt (cur @ [l]) @ embeddedOutput rt prov (length cs) (cur @ [l]))
                (cs @ [sentTexts rt (cur @ [l])])"
      by simp
    from True obtain r t' where "classifyLine rt l = Needs r t'"
      by (cases "classifyLine rt l") auto
    then have "neededTexts rt [l] = [t']" by (simp add: neededTexts_def)
    moreover have "length (neededTexts rt cur) < BATCH_SIZE"
      using Cons.prems(1) by (simp add: tracks_def)
    ultimately have len: "length (sentTexts rt (cur @ [l])) = BATCH_SIZE"
      using True by (simp add: sentTexts_length neededTexts_append)
    have "chunksOf BATCH_SIZE (sentTexts rt (cur @ [l]) @ sentTexts rt ls) =
            sentTexts rt (cur @ [l]) # chunksOf BATCH_SIZE (sentTexts rt ls)"
      using len by (intro chunksOf_full) (simp_all add: BATCH_SIZE_def)
    moreover have "sentTexts rt (cur @ l # ls) = sentTexts rt (cur @ [l]) @ sentTexts rt ls"
      using sentTexts_append[of rt "cur @ [l]" ls] by simp
    ultimately show ?thesis
      using Cons.IH[OF t sls] by simp
  next
    case False
    with step_tracks[OF Cons.prems(1) assms sl, of totalSize]
    have t: "tracks rt (step rt prov totalSize s l) (cur @ [l]) pre cs"
      by auto
    show ?thesis
      using Cons.IH[OF t sls] by simp
  qed
qed

lemma processFile_calls:
  assumes "reliable prov" "stringTexts rt lines"
  shows "calls (processFile rt prov totalSize lines f) = chunksOf BATCH_SIZE (sentTexts rt lines)"
  unfolding processFile_def using run_calls[OF assms(1) initial_tracks assms(2)] by simp

section \<open>Evaluating the examples\<close>

lemmas example_defs = exampleRuntime_def tableRuntime_def stubProvider_def newFile_def
  initialState_def line_a_def line_b_def line_id_def out_a_def out_b_def out_a_half_def

lemmas run_defs = processFile_def finish_def step_def tryLine_def dispatchIfFull_def classify_def
  processBatch_def fetchBatchEmbeddings_def readEmbeddings_def updateFileStatus_def
  getEmbeddingText_def hasEmbedding_def BATCH_SIZE_def ok_def



lemma example_facts:
  "JSON_parse exampleRuntime line_a = Some (JObj [(''text'', JStr ''a'')])"
  "JSON_parse exampleRuntime line_b = Some (JObj [(''text'', JStr ''b'')])"
  "JSON_parse exampleRuntime line_id = Some (JObj [(''id'', JNum 1)])"
  "JSON_parse exampleRuntime ''NOT_JSON'' = None"
  "JSON_stringify exampleRuntime (JObj [(''text'', JStr ''a''), (''embedding'', JArr [JNum (1 / 10)])]) = out_a"
  "JSON_stringify exampleRuntime (JObj [(''text'', JStr ''b''), (''embedding'', JArr [JNum (1 / 10)])]) = out_b"
  "JSON_stringify exampleRuntime (JObj [(''id'', JNum 1)]) = line_id"
  "JSON_stringify exampleRuntime (JObj [(''text'', JStr ''a''), (''embedding'', JArr [JNum (1 / 2)])]) = out_a_half"
  "utf8Length line_a = 12" "utf8Length line_b = 12" "utf8Length line_id = 8"
  by (simp_all add: exampleRuntime_def tableRuntime_def line_a_def line_b_def line_id_def
      out_a_def out_b_def out_a_half_def)

lemma utf8Length_append: "utf8Length (xs @ ys) = utf8Length xs + utf8Length ys"
  by (induction xs) auto

lemmas eval_defs = run_defs example_facts stubProvider_def newFile_def initialState_def
  utf8Length_append

section \<open>Output order\<close>












section \<open>The output only grows\<close>

lemma forEachRecord_grows:
  "\<exists>more. fst (snd (forEachRecord rt rs es out)) = out @ more"
proof (induction rs arbitrary: es out)
  case Nil
  then show ?case by simp
next
  case (Cons r rs)
  show ?case
  proof (cases "setProp True r ''embedding'' (case es of [] \<Rightarrow> JUndefined | e # x \<Rightarrow> e)")
    case (Inl a)
    then show ?thesis by simp
  next
    case (Inr r')
    from Cons.IH[of "tl es" "out @ [JSON_stringify rt r']"]
    obtain more where "fst (snd (forEachRecord rt rs (tl es) (out @ [JSON_stringify rt r']))) =
        (out @ [JSON_stringify rt r']) @ more" by blast
    then show ?thesis using Inr by (auto split: prod.splits)
  qed
qed

lemma processBatch_grows:
  "\<exists>more. fst (snd (snd (processBatch rt prov cs texts records out))) = out @ more"
  using forEachRecord_grows[of rt records _ out]
  by (auto simp: processBatch_def split: prod.splits sum.splits)

lemma dispatchIfFull_grows:
  "\<exists>more. processedLines (fst (dispatchIfFull rt prov totalSize s)) = processedLines s @ more"
  using processBatch_grows[of rt prov "calls s" "batch s" "batchRecords s" "processedLines s"]
  by (auto simp: dispatchIfFull_def updateFileStatus_def split: prod.splits option.splits)

lemma caught_grows:
  "\<exists>more. processedLines (caught line res) = processedLines (fst res) @ more"
  by (auto simp: caught_def split: prod.splits option.splits)

lemma step_grows:
  "\<exists>more. processedLines (step rt prov totalSize s line) = processedLines s @ more"
proof (cases "classifyLine rt line")
  case Unparsed
  then show ?thesis by (simp add: step_Unparsed consumed_def)
next
  case Untouched
  let ?s1 = "(consumed s line)\<lparr>processedLines := processedLines s @ [line],
                           processedCount := processedCount s + 1\<rparr>"
  from dispatchIfFull_grows[of rt prov totalSize ?s1] caught_grows[of line "dispatchIfFull rt prov totalSize ?s1"]
  show ?thesis unfolding step_Untouched[OF Untouched] by (auto simp: consumed_def)
next
  case (Embedded r)
  let ?s1 = "(consumed s line)\<lparr>processedLines := processedLines s @ [JSON_stringify rt r],
                           processedCount := processedCount s + 1\<rparr>"
  from dispatchIfFull_grows[of rt prov totalSize ?s1] caught_grows[of line "dispatchIfFull rt prov totalSize ?s1"]
  show ?thesis unfolding step_Embedded[OF Embedded] by (auto simp: consumed_def)
next
  case (Needs r t)
  let ?s1 = "(consumed s line)\<lparr>batch := batch s @ [t], batchRecords := batchRecords s @ [r]\<rparr>"
  from dispatchIfFull_grows[of rt prov totalSize ?s1] caught_grows[of line "dispatchIfFull rt prov totalSize ?s1"]
  show ?thesis unfolding step_Needs[OF Needs] by (auto simp: consumed_def)
qed

lemma forAwait_grows:
  "\<exists>more. processedLines (forAwait rt prov totalSize s ls) = processedLines s @ more"
proof (induction ls arbitrary: s)
  case Nil
  then show ?case by simp
next
  case (Cons l ls)
  from step_grows[of rt prov totalSize s l] obtain m1 where
    "processedLines (step rt prov totalSize s l) = processedLines s @ m1" by blast
  moreover from Cons[of "step rt prov totalSize s l"] obtain m2 where
    "processedLines (forAwait rt prov totalSize (step rt prov totalSize s l) ls) =
       processedLines (step rt prov totalSize s l) @ m2" by blast
  ultimately show ?case by simp
qed

lemma finish_grows:
  "\<exists>more. processedLines (finish rt prov s) = processedLines s @ more"
  using processBatch_grows[of rt prov "calls s" "batch s" "batchRecords s" "processedLines s"]
  by (auto simp: finish_def updateFileStatus_def split: prod.splits option.splits)

section \<open>Lines that are not JSON\<close>

lemma Unparsed_iff_parse: "JSON_parse rt line = None \<Longrightarrow> classifyLine rt line = Unparsed"
  by (simp add: classifyLine_def)

text \<open>
  C3, as stated, fails on its own example: with the provider answering \<open>[0.1]\<close> per
  text, the three lines \<open>{"text":"a"}\<close>, \<open>NOT_JSON\<close>, \<open>{"text":"b"}\<close> give three output
  lines of which the first, not the middle one, is \<open>NOT_JSON\<close>: the raw line is pushed
  when it is read, the two records when their batch is dispatched at the end.
\<close>

theorem unparsed_line_counterexample:
  "processedLines (processFile exampleRuntime stubProvider 35 [line_a, ''NOT_JSON'', line_b] newFile) =
     [''NOT_JSON'', out_a, out_b] \<and>
   processedLines (processFile exampleRuntime stubProvider 35 [line_a, ''NOT_JSON'', line_b] newFile) ! 1
     \<noteq> ''NOT_JSON''"
  by (simp add: run_defs example_defs)

text \<open>
  C3, amended.  A line that \<open>JSON.parse\<close> rejects does not stop the run.  In \<open>App.jsx\<close>
  one turn of the loop adds the line's bytes to \<open>processedBytes\<close>, pushes the raw line,
  unmodified, to the output and changes nothing else: the line is not counted in
  \<open>processedCount\<close> (there is no error counter), no request is sent, the batch waits on.
  The loop goes on with the rest of the input, and the raw line stays in the final
  output right after what had been emitted before it, hence ahead of the records that
  were waiting in the batch.  The script counts the line in \<open>errorCount\<close> and writes
  nothing for it.
\<close>

theorem unparsed_line_kept:
  assumes "JSON_parse rt line = None"
  shows "step rt prov totalSize s line =
           s\<lparr>processedBytes := processedBytes s + utf8Length line + 1,
             processedLines := processedLines s @ [line]\<rparr> \<and>
         (\<exists>more. processedLines (finish rt prov (forAwait rt prov totalSize s (line # rest))) =
                  processedLines s @ [line] @ more) \<and>
         (trim line \<noteq> [] \<longrightarrow> scriptStep rt env ss line = ss\<lparr>errorCount := errorCount ss + 1\<rparr>)"
proof -
  have len: "utf8Length (line @ [CHR 0x0A]) = utf8Length line + 1"
    by (induction line) auto
  have st: "step rt prov totalSize s line =
           s\<lparr>processedBytes := processedBytes s + utf8Length line + 1,
             processedLines := processedLines s @ [line]\<rparr>"
    using step_Unparsed[OF Unparsed_iff_parse[OF assms], of prov totalSize s]
    by (simp add: consumed_def len)
  let ?s1 = "step rt prov totalSize s line"
  from forAwait_grows[of rt prov totalSize ?s1 rest] finish_grows[of rt prov "forAwait rt prov totalSize ?s1 rest"]
  have "\<exists>more. processedLines (finish rt prov (forAwait rt prov totalSize ?s1 rest)) =
                  processedLines ?s1 @ more" by auto
  then have gr: "\<exists>more. processedLines (finish rt prov (forAwait rt prov totalSize s (line # rest))) =
                  processedLines s @ [line] @ more"
    by (simp add: st)
  have sc: "trim line \<noteq> [] \<longrightarrow> scriptStep rt env ss line = ss\<lparr>errorCount := errorCount ss + 1\<rparr>"
    using assms by (simp add: scriptStep_def tryScriptLine_def)
  from st gr sc show ?thesis by blast
qed

theorem unparsed_line_kept_witness:
  "step exampleRuntime stubProvider 35 (initialState newFile) ''NOT_JSON'' =
     (initialState newFile)\<lparr>processedBytes := 9, processedLines := [''NOT_JSON'']\<rparr> \<and>
   resultUrl (fileEntry (processFile exampleRuntime stubProvider 35 [line_a, ''NOT_JSON'', line_b] newFile)) =
     Some (''NOT_JSON'' @ [CHR 0x0A] @ out_a @ [CHR 0x0A] @ out_b)"
proof -
  have p: "JSON_parse exampleRuntime ''NOT_JSON'' = None"
    by (simp add: example_defs)
  have "resultUrl (fileEntry (processFile exampleRuntime stubProvider 35 [line_a, ''NOT_JSON'', line_b] newFile)) =
     Some (''NOT_JSON'' @ [CHR 0x0A] @ out_a @ [CHR 0x0A] @ out_b)"
    by (simp add: run_defs example_defs)
  then show ?thesis
    using unparsed_line_kept[OF p, of stubProvider 35 "initialState newFile"]
    by (simp add: example_defs)
qed

section \<open>Progress stays below 100 until the run is done\<close>


























section \<open>Records that are embedded already\<close>















lemma odd_facts:
  "JSON_parse oddRuntime line_odd =
     Some (JObj [(''question'', JObj [(''toString'', JNum 1)]), (''answer'', JStr ''x''),
                 (''embedding'', JArr [JNum (1 / 10)])])"
  "trim line_odd \<noteq> []"
  by (simp_all add: oddRuntime_def tableRuntime_def trim_def isSpace_def line_odd_def)

text \<open>
  C2, as stated, fails on a record that carries an embedding and whose text cannot be
  extracted: for the line
  \<open>{"question":{"toString":1},"answer":"x","embedding":[0.1]}\<close> the template literal
  of \<open>getEmbeddingText\<close> throws before the embedding is looked at.  The script writes
  nothing for the record and counts an error; \<open>App.jsx\<close> takes the line for one that
  does not parse, and emits it without counting it.
\<close>

theorem embedded_passed_through_counterexample:
  "alreadyEmbedded oddRuntime line_odd \<and>
   written (scriptMain oddRuntime exampleEnv [line_odd]) = [] \<and>
   errorCount (scriptMain oddRuntime exampleEnv [line_odd]) = 1 \<and>
   processedLines (processFile oddRuntime stubProvider 59 [line_odd] newFile) = [line_odd] \<and>
   processed (fileEntry (processFile oddRuntime stubProvider 59 [line_odd] newFile)) = 0"
  by (simp add: alreadyEmbedded_def field_def odd_facts scriptMain_def scriptStep_def
      tryScriptLine_def getEmbeddingText_script_def initialScript_def run_defs newFile_def
      initialState_def)



section \<open>Reading a blob back\<close>

text \<open>
  \<open>lineIterator\<close> yields the lines of the whole text that are not blank, however the
  stream cuts the text into pieces.  So the blob of a run, whose lines are serialised
  values (not blank, without a newline inside), is read back as the very lines the run
  emitted.
\<close>

lemma splitAcc_nonempty: "splitAcc cur s \<noteq> []"
  by (induction s arbitrary: cur) auto

lemma splitAcc_append:
  "splitAcc cur (a @ b) = butlast (splitAcc cur a) @ splitAcc (last (splitAcc cur a)) b"
  by (induction a arbitrary: cur) (auto simp: splitAcc_nonempty)

lemma splitAcc_plain: "CHR 0x0A \<notin> set l \<Longrightarrow> splitAcc cur (l @ b) = splitAcc (cur @ l) b"
  by (induction l arbitrary: cur) auto

lemma splitAcc_no_newline:
  "CHR 0x0A \<notin> set cur \<Longrightarrow> l \<in> set (splitAcc cur s) \<Longrightarrow> CHR 0x0A \<notin> set l"
proof (induction s arbitrary: cur)
  case Nil
  then show ?case by simp
next
  case (Cons c s)
  show ?case
  proof (cases "c = CHR 0x0A")
    case True
    with Cons.prems have "l = cur \<or> l \<in> set (splitAcc [] s)" by simp
    then show ?thesis using Cons.prems(1) Cons.IH[of "[]"] by auto
  next
    case False
    with Cons.prems have "l \<in> set (splitAcc (cur @ [c]) s)" by simp
    then show ?thesis using Cons.prems(1) False Cons.IH[of "cur @ [c]"] by auto
  qed
qed

lemma trim_Nil: "trim [] = []"
  by (simp add: trim_def)

lemma lineLoop_lines:
  "lineLoop buffer chunks = filter (\<lambda>line. trim line \<noteq> []) (splitNewline (buffer @ concat chunks))"
proof (induction chunks arbitrary: buffer)
  case Nil
  then show ?case by (simp add: splitNewline_def trim_Nil)
next
  case (Cons chunk chunks)
  have "splitNewline ((buffer @ chunk) @ concat chunks) =
      butlast (splitNewline (buffer @ chunk)) @
      splitAcc (last (splitNewline (buffer @ chunk))) (concat chunks)"
    unfolding splitNewline_def by (rule splitAcc_append)
  moreover have "splitAcc (last (splitNewline (buffer @ chunk))) (concat chunks) =
      splitNewline (last (splitNewline (buffer @ chunk)) @ concat chunks)"
  proof -
    have "last (splitAcc [] (buffer @ chunk)) \<in> set (splitAcc [] (buffer @ chunk))"
      by (simp add: splitAcc_nonempty)
    then have "CHR 0x0A \<notin> set (last (splitAcc [] (buffer @ chunk)))"
      using splitAcc_no_newline[of "[]"] by simp
    from splitAcc_plain[OF this, of "[]" "concat chunks"] show ?thesis
      by (simp add: splitNewline_def)
  qed
  ultimately show ?case using Cons[of "last (splitNewline (buffer @ chunk))"] by simp
qed

lemma splitNewline_join:
  assumes "ls \<noteq> []" "\<forall>l\<in>set ls. CHR 0x0A \<notin> set l"
  shows "splitNewline (join [CHR 0x0A] ls) = ls"
  using assms
proof (induction ls)
  case Nil
  then show ?case by simp
next
  case (Cons l ls)
  note plain = splitAcc_plain[of l]
  show ?case
  proof (cases "ls = []")
    case True
    then show ?thesis using Cons.prems plain[of "[]" "[]"] by (simp add: splitNewline_def)
  next
    case False
    then obtain y ys where ls: "ls = y # ys" by (cases ls) auto
    have "join [CHR 0x0A] (l # ls) = l @ CHR 0x0A # join [CHR 0x0A] ls" using ls by simp
    then have "splitNewline (join [CHR 0x0A] (l # ls)) = l # splitNewline (join [CHR 0x0A] ls)"
      using Cons.prems plain[of "[]" "CHR 0x0A # join [CHR 0x0A] ls"] by (simp add: splitNewline_def)
    then show ?thesis using Cons False by simp
  qed
qed

lemma blob_read_back:
  assumes "concat chunks = join [CHR 0x0A] ls"
    "\<forall>l\<in>set ls. CHR 0x0A \<notin> set l \<and> trim l \<noteq> []"
  shows "lineIterator chunks = ls"
proof (cases "ls = []")
  case True
  with assms(1) have "concat chunks = []" by simp
  then show ?thesis using True
    by (simp add: lineIterator_def lineLoop_lines splitNewline_def trim_Nil del: concat_eq_Nil_conv)
next
  case False
  with assms have "splitNewline (concat chunks) = ls" by (simp add: splitNewline_join)
  moreover have "filter (\<lambda>line. trim line \<noteq> []) ls = ls" using assms(2) by (simp add: filter_id_conv)
  ultimately show ?thesis by (simp add: lineIterator_def lineLoop_lines)
qed

section \<open>A dispatch that fails\<close>


text \<open>
  When the dispatch of a full batch inside the loop (line 133) throws, the exception is
  taken by the inner \<open>catch\<close>, the one that logs \<open>Error parsing line\<close>: the raw line is
  pushed, the batch is kept, and the loop goes on.
\<close>

lemma dispatch_failure_in_loop:
  assumes "classifyLine rt line = Needs r t"
    "dispatchIfFull rt prov totalSize
       ((consumed s line)\<lparr>batch := batch s @ [t], batchRecords := batchRecords s @ [r]\<rparr>) = (s', Some e)"
  shows "step rt prov totalSize s line = s'\<lparr>processedLines := processedLines s' @ [line]\<rparr>"
  using assms by (simp add: step_Needs caught_def)

text \<open>
  C5 on the specification's own scenario: twenty records to embed, and a provider that
  answers the second request with a \<open>503\<close>.  The claim has the run end \<open>error\<close> with the
  message and no output.  The run ends \<open>done\<close> with no error message and a blob of 21
  lines: the failed request is retried with nine texts when the next record arrives,
  and the raw line of the sixteenth record is in the output (at index 8) next to its
  embedded record.
\<close>

theorem dispatch_failure_swallowed:
  "status (fileEntry (processFile exampleRuntime (failAt 1) 260 twenty_a newFile)) = Done \<and>
   error (fileEntry (processFile exampleRuntime (failAt 1) 260 twenty_a newFile)) = None \<and>
   resultUrl (fileEntry (processFile exampleRuntime (failAt 1) 260 twenty_a newFile)) \<noteq> None \<and>
   length (processedLines (processFile exampleRuntime (failAt 1) 260 twenty_a newFile)) = 21 \<and>
   processedLines (processFile exampleRuntime (failAt 1) 260 twenty_a newFile) ! 8 = line_a"
  by (simp add: eval_defs twenty_a_def failAt_def)

text \<open>With a provider that fails every request the last dispatch fails too, and the run does end \<open>error\<close>.\<close>

lemma dispatch_failure_every_time:
  "fileEntry (processFile exampleRuntime (\<lambda>n texts. Inr (Response 503 ''busy'' None)) 117 nine_a newFile) =
     newFile\<lparr>status := Failed, error := Some ''API Error 503: busy''\<rparr>"
  by (simp add: eval_defs nine_a_def apiErrorMessage_def digit_def)

section \<open>Batches\<close>

text \<open>
  When no dispatch fails the requests are the texts to embed, newlines replaced, in
  arrival order, cut into pieces of \<open>BATCH_SIZE\<close> with a shorter last piece: twenty
  records give requests of 8, 8 and 4 texts.
\<close>

lemma twenty_records_three_requests:
  "map length (calls (processFile exampleRuntime stubProvider 260 twenty_a newFile)) = [8, 8, 4]"
  by (simp add: eval_defs twenty_a_def)

text \<open>
  C4 on nine records to embed and a provider whose first answer is a \<open>503\<close>.  The claim
  has every batch hold at most eight records.  The failed batch of eight is kept, the
  ninth record joins it, and the second request carries nine texts.
\<close>

theorem batch_exceeds_batch_size:
  "status (fileEntry (processFile exampleRuntime (failAt 0) 117 nine_a newFile)) = Done \<and>
   map length (calls (processFile exampleRuntime (failAt 0) 117 nine_a newFile)) = [8, 9] \<and>
   length (processedLines (processFile exampleRuntime (failAt 0) 117 nine_a newFile)) = 10"
  by (simp add: eval_defs nine_a_def failAt_def)

section \<open>Responses of the wrong shape\<close>















section \<open>What is done to a text before it is embedded\<close>




















end
